theory Spec2Isabelle
  imports Complex_Main
begin

section \<open>JavaScript numbers\<close>

text \<open>
  The TypeScript type \<open>number\<close> is an IEEE-754 binary64 value. The finite ones are
  real numbers; beside them stand \<open>NaN\<close>, \<open>-Infinity\<close> and \<open>Infinity\<close>. Comparison,
  \<open>Math.max\<close> and \<open>Math.min\<close> are exact on binary64, so they are functions of the
  values alone. \<open>Fin\<close> carries any real number, the binary64 values among them:
  what holds of every real holds of them. The sign of zero is not modelled (no
  operation of the program observes it).
\<close>

datatype number = NaN | NegInf | Fin real | PosInf

text \<open>\<open>a < b\<close> of JavaScript: false as soon as an operand is \<open>NaN\<close>.\<close>

fun jlt :: "number \<Rightarrow> number \<Rightarrow> bool" where
  "jlt NaN b = False"
| "jlt a NaN = False"
| "jlt NegInf NegInf = False"
| "jlt NegInf b = True"
| "jlt (Fin x) (Fin y) = (x < y)"
| "jlt (Fin x) PosInf = True"
| "jlt (Fin x) NegInf = False"
| "jlt PosInf b = False"

text \<open>\<open>a > b\<close> of JavaScript is \<open>b < a\<close>.\<close>

definition jgt :: "number \<Rightarrow> number \<Rightarrow> bool" where
  "jgt a b = jlt b a"

text \<open>\<open>a <= b\<close> of JavaScript: \<open>a < b\<close> or \<open>a == b\<close>, false on \<open>NaN\<close>.\<close>

definition jle :: "number \<Rightarrow> number \<Rightarrow> bool" where
  "jle a b = (a \<noteq> NaN \<and> b \<noteq> NaN \<and> (jlt a b \<or> a = b))"

subsection \<open>Arithmetic\<close>

text \<open>
  An arithmetic operation on two finite operands computes the exact real result and
  rounds it to a binary64 value, or to an infinity on overflow. The rounding is a
  parameter \<open>rnd\<close> of every function that calculates, so that a theorem either holds
  for every rounding or says what it needs of it. The cases with \<open>NaN\<close> and the
  infinities are those of IEEE 754.
\<close>

type_synonym rounding = "real \<Rightarrow> number"

fun jadd :: "rounding \<Rightarrow> number \<Rightarrow> number \<Rightarrow> number" where
  "jadd rnd NaN b = NaN"
| "jadd rnd a NaN = NaN"
| "jadd rnd PosInf NegInf = NaN"
| "jadd rnd NegInf PosInf = NaN"
| "jadd rnd PosInf b = PosInf"
| "jadd rnd NegInf b = NegInf"
| "jadd rnd (Fin x) PosInf = PosInf"
| "jadd rnd (Fin x) NegInf = NegInf"
| "jadd rnd (Fin x) (Fin y) = rnd (x + y)"

fun jsub :: "rounding \<Rightarrow> number \<Rightarrow> number \<Rightarrow> number" where
  "jsub rnd NaN b = NaN"
| "jsub rnd a NaN = NaN"
| "jsub rnd PosInf PosInf = NaN"
| "jsub rnd NegInf NegInf = NaN"
| "jsub rnd PosInf b = PosInf"
| "jsub rnd NegInf b = NegInf"
| "jsub rnd (Fin x) PosInf = NegInf"
| "jsub rnd (Fin x) NegInf = PosInf"
| "jsub rnd (Fin x) (Fin y) = rnd (x - y)"

text \<open>The infinity with the sign of a real number; \<open>NaN\<close> at zero.\<close>

definition signed_inf :: "real \<Rightarrow> number" where
  "signed_inf s = (if s = 0 then NaN else if 0 < s then PosInf else NegInf)"

fun jmul :: "rounding \<Rightarrow> number \<Rightarrow> number \<Rightarrow> number" where
  "jmul rnd NaN b = NaN"
| "jmul rnd a NaN = NaN"
| "jmul rnd PosInf PosInf = PosInf"
| "jmul rnd PosInf NegInf = NegInf"
| "jmul rnd NegInf PosInf = NegInf"
| "jmul rnd NegInf NegInf = PosInf"
| "jmul rnd PosInf (Fin y) = signed_inf y"
| "jmul rnd NegInf (Fin y) = signed_inf (- y)"
| "jmul rnd (Fin x) PosInf = signed_inf x"
| "jmul rnd (Fin x) NegInf = signed_inf (- x)"
| "jmul rnd (Fin x) (Fin y) = rnd (x * y)"

text \<open>
  Division: a finite number over zero is an infinity, and \<open>0 / 0\<close> is \<open>NaN\<close>. The
  zero divisor is taken to be \<open>+0\<close> (the only zero divisor of the program is the
  length of an empty array).
\<close>

fun jdiv :: "rounding \<Rightarrow> number \<Rightarrow> number \<Rightarrow> number" where
  "jdiv rnd NaN b = NaN"
| "jdiv rnd a NaN = NaN"
| "jdiv rnd PosInf PosInf = NaN"
| "jdiv rnd PosInf NegInf = NaN"
| "jdiv rnd NegInf PosInf = NaN"
| "jdiv rnd NegInf NegInf = NaN"
| "jdiv rnd PosInf (Fin y) = (if 0 \<le> y then PosInf else NegInf)"
| "jdiv rnd NegInf (Fin y) = (if 0 \<le> y then NegInf else PosInf)"
| "jdiv rnd (Fin x) PosInf = Fin 0"
| "jdiv rnd (Fin x) NegInf = Fin 0"
| "jdiv rnd (Fin x) (Fin y) = (if y = 0 then signed_inf x else rnd (x / y))"

text \<open>
  \<open>Math.max\<close> and \<open>Math.min\<close>: \<open>NaN\<close> as soon as an argument is \<open>NaN\<close>;
  \<open>Math.max()\<close> of no argument is \<open>-Infinity\<close>.
\<close>

definition Math_max2 :: "number \<Rightarrow> number \<Rightarrow> number" where
  "Math_max2 a b = (if a = NaN \<or> b = NaN then NaN else if jlt a b then b else a)"

definition Math_min2 :: "number \<Rightarrow> number \<Rightarrow> number" where
  "Math_min2 a b = (if a = NaN \<or> b = NaN then NaN else if jlt b a then b else a)"

definition Math_max :: "number list \<Rightarrow> number" where
  "Math_max args = foldl Math_max2 NegInf args"

text \<open>What a theorem may ask of the rounding.\<close>

definition rounds :: "rounding \<Rightarrow> bool" where
  \<comment> \<open>rounding a real number gives a number, finite or infinite\<close>
  "rounds rnd = (\<forall>r. rnd r \<noteq> NaN)"

definition exact_on :: "rounding \<Rightarrow> real list \<Rightarrow> bool" where
  \<comment> \<open>the listed values are representable: rounding returns them as they are\<close>
  "exact_on rnd rs = list_all (\<lambda>r. rnd r = Fin r) rs"

definition exact :: "rounding \<Rightarrow> bool" where
  \<comment> \<open>arithmetic without rounding error\<close>
  "exact rnd = (\<forall>r. rnd r = Fin r)"

definition accurate_on :: "rounding \<Rightarrow> real \<Rightarrow> real \<Rightarrow> bool" where
  \<comment> \<open>between \<open>lo\<close> and \<open>hi\<close> the result is finite, with the relative error of
      binary64's round-to-nearest (half a unit in the 53rd bit)\<close>
  "accurate_on rnd lo hi =
     (\<forall>r. lo \<le> r \<and> r \<le> hi \<longrightarrow> (\<exists>v. rnd r = Fin v \<and> \<bar>v - r\<bar> \<le> \<bar>r\<bar> / 2 ^ 53))"

section \<open>The data model\<close>

text \<open>
  \<^verbatim>\<open>
  interface EarthquakeData {
    id: string;
    geometry: { coordinates: [number, number, number] };
    properties: { mag: number; place: string; time: number; url: string;
                  title: string; type: string; depth: number };
  }
  \<close>
  The coordinates are longitude, latitude, depth, in that order. The fields \<open>id\<close>
  and \<open>type\<close> are \<open>ident\<close> and \<open>kind\<close> here.
\<close>

record Geometry =
  coordinates :: "number \<times> number \<times> number"

record Properties =
  mag :: number
  place :: string
  time :: number
  url :: string
  title :: string
  kind :: string
  depth :: number

record EarthquakeData =
  ident :: string
  geometry :: Geometry
  properties :: Properties

section \<open>EarthquakeStats.tsx\<close>

text \<open>The seven counters of \<open>getStatsByMagnitude\<close>.\<close>

record Stats =
  micro :: nat
  minor :: nat
  light :: nat
  moderate :: nat
  strong :: nat
  major :: nat
  great :: nat

definition stats0 :: Stats where
  "stats0 = \<lparr>micro = 0, minor = 0, light = 0, moderate = 0, strong = 0, major = 0, great = 0\<rparr>"

text \<open>The body of the \<open>forEach\<close> callback: one event, one counter incremented.\<close>

definition tally :: "Stats \<Rightarrow> EarthquakeData \<Rightarrow> Stats" where
  "tally stats eq =
     (let m = mag (properties eq) in
      if jlt m (Fin 1) then stats\<lparr>micro := micro stats + 1\<rparr>
      else if jlt m (Fin 2) then stats\<lparr>minor := minor stats + 1\<rparr>
      else if jlt m (Fin 3) then stats\<lparr>light := light stats + 1\<rparr>
      else if jlt m (Fin 4) then stats\<lparr>moderate := moderate stats + 1\<rparr>
      else if jlt m (Fin 5) then stats\<lparr>strong := strong stats + 1\<rparr>
      else if jlt m (Fin 6) then stats\<lparr>major := major stats + 1\<rparr>
      else stats\<lparr>great := great stats + 1\<rparr>)"

definition getStatsByMagnitude :: "EarthquakeData list \<Rightarrow> Stats" where
  "getStatsByMagnitude earthquakes = foldl tally stats0 earthquakes"

text \<open>
  \<open>Math.max(...earthquakes.map(eq => eq.properties.mag))\<close>. The limit an engine
  puts on the number of arguments of a call is not modelled.
\<close>

definition getMaxMagnitude :: "EarthquakeData list \<Rightarrow> number" where
  "getMaxMagnitude earthquakes = Math_max (map (\<lambda>eq. mag (properties eq)) earthquakes)"

text \<open>
  \<open>reduce\<close> with the initial value \<open>0\<close> runs from the left; the divisor is the length
  of the array, a number.
\<close>

definition getAverageMagnitude :: "rounding \<Rightarrow> EarthquakeData list \<Rightarrow> number" where
  "getAverageMagnitude rnd earthquakes =
     (let total = foldl (\<lambda>sum eq. jadd rnd sum (mag (properties eq))) (Fin 0) earthquakes
      in jdiv rnd total (Fin (real (length earthquakes))))"

text \<open>
  What the program can throw: \<open>new Error(message)\<close>, the \<open>TypeError\<close> of the
  platform (\<open>reduce\<close> of an empty array with no initial value, a property read on
  \<open>null\<close>, a failed network request) and the \<open>SyntaxError\<close> of a body that is not
  JSON.
\<close>

datatype js_error = Error string | TypeError | SyntaxError

text \<open>
  \<open>reduce\<close> with no initial value starts from the first element and throws a
  \<open>TypeError\<close> on an empty array.
\<close>

definition later :: "EarthquakeData \<Rightarrow> EarthquakeData \<Rightarrow> EarthquakeData" where
  \<comment> \<open>the callback of \<open>reduce\<close>\<close>
  "later latest current =
     (if jgt (time (properties current)) (time (properties latest)) then current else latest)"

definition getMostRecentEarthquake :: "EarthquakeData list \<Rightarrow> js_error + EarthquakeData" where
  "getMostRecentEarthquake earthquakes =
     (case earthquakes of
        [] \<Rightarrow> Inl TypeError
      | first # rest \<Rightarrow> Inr (foldl later first rest))"

text \<open>
  The component computes the four values in this order before it renders them: an
  error thrown by one of them is the outcome of the component.
\<close>

record StatsView =
  stats :: Stats
  maxMagnitude :: number
  avgMagnitude :: number
  mostRecent :: EarthquakeData

definition EarthquakeStats :: "rounding \<Rightarrow> EarthquakeData list \<Rightarrow> js_error + StatsView" where
  "EarthquakeStats rnd earthquakes =
     (let st = getStatsByMagnitude earthquakes;
          mx = getMaxMagnitude earthquakes;
          avg = getAverageMagnitude rnd earthquakes
      in case getMostRecentEarthquake earthquakes of
           Inl err \<Rightarrow> Inl err
         | Inr recent \<Rightarrow>
             Inr \<lparr>stats = st, maxMagnitude = mx, avgMagnitude = avg, mostRecent = recent\<rparr>)"

text \<open>The rows of the magnitude distribution: label, count, colour name.\<close>

definition distribution :: "Stats \<Rightarrow> (string \<times> nat \<times> string) list" where
  "distribution st =
     [(''Great (6.0+)'', great st, ''magnitude-great''),
      (''Major (5.0-5.9)'', major st, ''magnitude-major''),
      (''Strong (4.0-4.9)'', strong st, ''magnitude-strong''),
      (''Moderate (3.0-3.9)'', moderate st, ''magnitude-moderate''),
      (''Light (2.0-2.9)'', light st, ''magnitude-light''),
      (''Minor (1.0-1.9)'', minor st, ''magnitude-minor''),
      (''Micro (<1.0)'', micro st, ''magnitude-minor'')]"

text \<open>The style of a row: \<^verbatim>\<open>backgroundColor: `hsl(var(--${color}))`\<close>\<close>

definition backgroundColor :: "string \<Rightarrow> string" where
  "backgroundColor color = ''hsl(var(--'' @ color @ ''))''"

section \<open>Index.tsx: the page\<close>

text \<open>
  The state of a view: the \<open>useState\<close> cells, and the lines written by
  \<open>console.error\<close>. The map component has two cells more.
\<close>

record ViewState =
  earthquakes :: "EarthquakeData list"
  loading :: bool
  console :: "(string \<times> js_error) list"

record MapState = ViewState +
  error :: "string option"
  selectedEarthquake :: "EarthquakeData option"

text \<open>
  What the awaited promises deliver. \<open>fetch\<close> rejects or resolves with a response;
  \<open>response.json()\<close> rejects (\<open>Inl\<close>) or resolves with the parsed body. Of the parsed
  body the program reads \<open>features\<close> only: the body is \<open>null\<close> (the read throws), or a
  value whose \<open>features\<close> is an array (\<open>Some\<close>), or a value whose \<open>features\<close> is
  absent or falsy (\<open>None\<close>), as in the body \<open>{}\<close>. The field \<open>ok\<close> is read as the
  platform sets it.
\<close>

datatype json_body = JsonNull | JsonValue "EarthquakeData list option"

record Response =
  ok :: bool
  status :: nat
  json :: "js_error + json_body"

datatype fetch_result = Rejected js_error | Resolved Response

text \<open>\<^verbatim>\<open>`${response.status}`\<close>: the decimal digits of the status.\<close>

definition digit :: "nat \<Rightarrow> char" where
  "digit d = ''0123456789'' ! d"

fun show_nat :: "nat \<Rightarrow> string" where
  "show_nat n = (if n < 10 then [digit n] else show_nat (n div 10) @ [digit (n mod 10)])"

declare show_nat.simps [simp del]

text \<open>Reading the digits back, to say that a message holds a status.\<close>

definition digit_value :: "char \<Rightarrow> nat" where
  "digit_value c = of_char c - 48"

definition read_nat :: "string \<Rightarrow> nat" where
  "read_nat s = foldl (\<lambda>n c. 10 * n + digit_value c) 0 s"

text \<open>\<open>data.features || []\<close>\<close>

definition features_or_empty :: "EarthquakeData list option \<Rightarrow> EarthquakeData list" where
  "features_or_empty features = (case features of None \<Rightarrow> [] | Some fs \<Rightarrow> fs)"

text \<open>
  The \<open>try\<close> block of \<open>fetchEarthquakes\<close> in \<open>Index\<close>: the error it throws, if any,
  and the state it leaves.
\<close>

definition Index_try :: "fetch_result \<Rightarrow> ViewState \<Rightarrow> js_error option \<times> ViewState" where
  "Index_try res s =
     (let s1 = s\<lparr>loading := True\<rparr> in
      case res of
        Rejected err \<Rightarrow> (Some err, s1)
      | Resolved response \<Rightarrow>
          if \<not> ok response
          then (Some (Error (''HTTP error! status: '' @ show_nat (status response))), s1)
          else (case json response of
                  Inl err \<Rightarrow> (Some err, s1)
                | Inr JsonNull \<Rightarrow> (Some TypeError, s1)
                | Inr (JsonValue features) \<Rightarrow>
                    (None, s1\<lparr>earthquakes := features_or_empty features\<rparr>)))"

text \<open>\<open>try\<close>, then \<open>catch\<close> on a thrown error, then \<open>finally\<close>.\<close>

definition Index_fetchEarthquakes :: "fetch_result \<Rightarrow> ViewState \<Rightarrow> ViewState" where
  "Index_fetchEarthquakes res s =
     (let (thrown, s2) = Index_try res s;
          s3 = (case thrown of
                  None \<Rightarrow> s2
                | Some err \<Rightarrow>
                    s2\<lparr>console := console s2 @ [(''Error fetching earthquake data:'', err)]\<rparr>)
      in s3\<lparr>loading := False\<rparr>)"

text \<open>
  The statistics panel of the page: the element it creates, the statistics component
  with its \<open>earthquakes\<close> property or the loading card, and what rendering that
  element gives.
\<close>

datatype element = EarthquakeStats_element "EarthquakeData list" | LoadingCard

definition Index_statsPanel :: "ViewState \<Rightarrow> element" where
  "Index_statsPanel s =
     (if \<not> loading s \<and> length (earthquakes s) > 0
      then EarthquakeStats_element (earthquakes s)
      else LoadingCard)"

definition render :: "rounding \<Rightarrow> element \<Rightarrow> js_error + StatsView option" where
  "render rnd el =
     (case el of
        EarthquakeStats_element es \<Rightarrow>
          (case EarthquakeStats rnd es of Inl err \<Rightarrow> Inl err | Inr v \<Rightarrow> Inr (Some v))
      | LoadingCard \<Rightarrow> Inr None)"

section \<open>Index.tsx: the map component\<close>

definition Map_try :: "fetch_result \<Rightarrow> MapState \<Rightarrow> js_error option \<times> MapState" where
  "Map_try res s =
     (let s1 = s\<lparr>loading := True\<rparr> in
      case res of
        Rejected err \<Rightarrow> (Some err, s1)
      | Resolved response \<Rightarrow>
          if \<not> ok response
          then (Some (Error (''HTTP error! status: '' @ show_nat (status response))), s1)
          else (case json response of
                  Inl err \<Rightarrow> (Some err, s1)
                | Inr JsonNull \<Rightarrow> (Some TypeError, s1)
                | Inr (JsonValue features) \<Rightarrow>
                    (None, s1\<lparr>earthquakes := features_or_empty features, error := None\<rparr>)))"

definition Map_fetchEarthquakes :: "fetch_result \<Rightarrow> MapState \<Rightarrow> MapState" where
  "Map_fetchEarthquakes res s =
     (let (thrown, s2) = Map_try res s;
          s3 = (case thrown of
                  None \<Rightarrow> s2
                | Some err \<Rightarrow>
                    s2\<lparr>console := console s2 @ [(''Error fetching earthquake data:'', err)],
                       error := Some ''Failed to load earthquake data. Please try again later.''\<rparr>)
      in s3\<lparr>loading := False\<rparr>)"

definition getMagnitudeColor :: "number \<Rightarrow> string" where
  "getMagnitudeColor magnitude =
     (if jlt magnitude (Fin 1) then ''hsl(var(--magnitude-minor))''
      else if jlt magnitude (Fin 2) then ''hsl(var(--magnitude-light))''
      else if jlt magnitude (Fin 3) then ''hsl(var(--magnitude-moderate))''
      else if jlt magnitude (Fin 4) then ''hsl(var(--magnitude-strong))''
      else if jlt magnitude (Fin 5) then ''hsl(var(--magnitude-major))''
      else ''hsl(var(--magnitude-great))'')"

definition getMagnitudeLabel :: "number \<Rightarrow> string" where
  "getMagnitudeLabel magnitude =
     (if jlt magnitude (Fin 1) then ''Micro''
      else if jlt magnitude (Fin 2) then ''Minor''
      else if jlt magnitude (Fin 3) then ''Light''
      else if jlt magnitude (Fin 4) then ''Moderate''
      else if jlt magnitude (Fin 5) then ''Strong''
      else if jlt magnitude (Fin 6) then ''Major''
      else ''Great'')"

text \<open>The equirectangular projection, clamped; the result is the pair \<open>(x, y)\<close>.\<close>

definition latLngToScreen :: "rounding \<Rightarrow> number \<Rightarrow> number \<Rightarrow> number \<times> number" where
  "latLngToScreen rnd lat lng =
     (let x = jmul rnd (jdiv rnd (jadd rnd lng (Fin 180)) (Fin 360)) (Fin 100);
          y = jmul rnd (jdiv rnd (jsub rnd (Fin 90) lat) (Fin 180)) (Fin 100)
      in (Math_max2 (Fin 0) (Math_min2 (Fin 100) x),
          Math_max2 (Fin 0) (Math_min2 (Fin 100) y)))"

text \<open>The rows of the legend: range, colour, label.\<close>

definition legend :: "(string \<times> string \<times> string) list" where
  "legend =
     [(''6.0+'', ''hsl(var(--magnitude-great))'', ''Great''),
      (''5.0-5.9'', ''hsl(var(--magnitude-major))'', ''Major''),
      (''4.0-4.9'', ''hsl(var(--magnitude-strong))'', ''Strong''),
      (''3.0-3.9'', ''hsl(var(--magnitude-moderate))'', ''Moderate''),
      (''2.0-2.9'', ''hsl(var(--magnitude-light))'', ''Light''),
      (''<2.0'', ''hsl(var(--magnitude-minor))'', ''Minor'')]"

text \<open>
  The range a row of the legend states, read as the magnitudes it names: magnitudes
  are shown with one decimal, so \<open>2.0-2.9\<close> is from 2 up to 3. The rows of the legend
  for a magnitude, and the label the legend shows for a colour.
\<close>

definition range_holds :: "string \<Rightarrow> real \<Rightarrow> bool" where
  "range_holds r m =
     (if r = ''6.0+'' then 6 \<le> m
      else if r = ''5.0-5.9'' then 5 \<le> m \<and> m < 6
      else if r = ''4.0-4.9'' then 4 \<le> m \<and> m < 5
      else if r = ''3.0-3.9'' then 3 \<le> m \<and> m < 4
      else if r = ''2.0-2.9'' then 2 \<le> m \<and> m < 3
      else if r = ''<2.0'' then m < 2
      else False)"

definition legend_rows :: "real \<Rightarrow> (string \<times> string \<times> string) list" where
  "legend_rows m = filter (\<lambda>(range, color, lab). range_holds range m) legend"

definition legend_label :: "string \<Rightarrow> string option" where
  "legend_label color = map_of (map (\<lambda>(range, col, lab). (col, lab)) legend) color"

subsection \<open>The refresh timer\<close>

text \<open>
  The effect of the map component runs when the view is mounted and returns the
  cleanup that runs when the view is torn down:
  \<^verbatim>\<open>
    fetchEarthquakes();
    const interval = setInterval(fetchEarthquakes, 5 * 60 * 1000);
    return () => clearInterval(interval);
  \<close>
  The platform is a clock in milliseconds, the table of the active interval timers
  and the record of every invocation of a callback: when, by whom, which.
  \<open>setInterval\<close> enters a timer that is due after its delay and returns a fresh
  handle; \<open>clearInterval\<close> removes the timer of a handle; a tick of the clock invokes
  the callback of every timer that is due and sets it due again after its delay.
  Time is the nominal time of the timers: the platform's delays in serving a due
  timer are not modelled.
\<close>

datatype callback = FetchEarthquakes

datatype initiator = FromEffect | FromTimer nat

record Timer =
  handle :: nat
  callback :: callback
  delay :: nat
  due :: nat

record Browser =
  clock :: nat
  timers :: "Timer list"
  next_handle :: nat
  invocations :: "(nat \<times> initiator \<times> callback) list"

definition setInterval :: "callback \<Rightarrow> nat \<Rightarrow> Browser \<Rightarrow> nat \<times> Browser" where
  "setInterval cb ms b =
     (next_handle b,
      b\<lparr>timers := timers b @ [\<lparr>handle = next_handle b, callback = cb, delay = ms, due = clock b + ms\<rparr>],
        next_handle := next_handle b + 1\<rparr>)"

definition clearInterval :: "nat \<Rightarrow> Browser \<Rightarrow> Browser" where
  "clearInterval h b = b\<lparr>timers := filter (\<lambda>t. handle t \<noteq> h) (timers b)\<rparr>"

definition tick :: "Browser \<Rightarrow> Browser" where
  "tick b =
     (let now = clock b + 1 in
      b\<lparr>clock := now,
        timers := map (\<lambda>t. if due t \<le> now then t\<lparr>due := due t + delay t\<rparr> else t) (timers b),
        invocations := invocations b @
          map (\<lambda>t. (now, FromTimer (handle t), callback t)) (filter (\<lambda>t. due t \<le> now) (timers b))\<rparr>)"

definition run :: "nat \<Rightarrow> Browser \<Rightarrow> Browser" where
  "run n b = (tick ^^ n) b"

text \<open>The effect of the map component; its result is the handle its cleanup holds.\<close>

definition Map_effect :: "Browser \<Rightarrow> nat \<times> Browser" where
  "Map_effect b =
     (let b1 = b\<lparr>invocations := invocations b @ [(clock b, FromEffect, FetchEarthquakes)]\<rparr>
      in setInterval FetchEarthquakes (5 * 60 * 1000) b1)"

definition Map_cleanup :: "nat \<Rightarrow> Browser \<Rightarrow> Browser" where
  "Map_cleanup interval b = clearInterval interval b"

text \<open>The effect of the page calls \<open>fetchEarthquakes\<close> once and returns no cleanup.\<close>

definition Index_effect :: "Browser \<Rightarrow> Browser" where
  "Index_effect b = b\<lparr>invocations := invocations b @ [(clock b, FromEffect, FetchEarthquakes)]\<rparr>"

text \<open>The times at which the timer of a handle invoked its callback.\<close>

definition fired :: "nat \<Rightarrow> Browser \<Rightarrow> nat list" where
  "fired h b = map fst (filter (\<lambda>(t, who, cb). who = FromTimer h) (invocations b))"

text \<open>The timers that a handle names in the table.\<close>

definition mine :: "nat \<Rightarrow> Browser \<Rightarrow> Timer list" where
  "mine h b = filter (\<lambda>t. handle t = h) (timers b)"

section \<open>The specification's vocabulary\<close>

text \<open>
  The specification names the seven magnitude bands and one function
  \<open>classifyMagnitude\<close>, where the source has a label function and a bucketing loop.
  This definition follows the specification's words (sections 3 and 4.2), to be
  compared with the source's two functions: the boundaries are 1, 2, 3, 4, 5, 6, and
  a magnitude has passed a boundary when it is not strictly below it.
\<close>

datatype MagnitudeBand = Micro | Minor | Light | Moderate | Strong | Major | Great

definition boundaries :: "real list" where
  "boundaries = [1, 2, 3, 4, 5, 6]"

definition bands :: "MagnitudeBand list" where
  "bands = [Micro, Minor, Light, Moderate, Strong, Major, Great]"

definition classifyMagnitude :: "number \<Rightarrow> MagnitudeBand" where
  "classifyMagnitude m = bands ! length (filter (\<lambda>b. \<not> jlt m (Fin b)) boundaries)"

text \<open>The label of a band, and the counter that the statistics keep for a band.\<close>

fun band_label :: "MagnitudeBand \<Rightarrow> string" where
  "band_label Micro = ''Micro''"
| "band_label Minor = ''Minor''"
| "band_label Light = ''Light''"
| "band_label Moderate = ''Moderate''"
| "band_label Strong = ''Strong''"
| "band_label Major = ''Major''"
| "band_label Great = ''Great''"

fun band_count :: "MagnitudeBand \<Rightarrow> Stats \<Rightarrow> nat" where
  "band_count Micro st = micro st"
| "band_count Minor st = minor st"
| "band_count Light st = light st"
| "band_count Moderate st = moderate st"
| "band_count Strong st = strong st"
| "band_count Major st = major st"
| "band_count Great st = great st"

text \<open>The number of events a collection has in a band.\<close>

definition in_band :: "MagnitudeBand \<Rightarrow> EarthquakeData list \<Rightarrow> nat" where
  "in_band band es = length (filter (\<lambda>eq. classifyMagnitude (mag (properties eq)) = band) es)"

text \<open>
  The specification's \<open>clamp(v, lo, hi)\<close>, where the source writes
  \<open>Math.max(lo, Math.min(hi, v))\<close>.
\<close>

definition clamp :: "number \<Rightarrow> number \<Rightarrow> number \<Rightarrow> number" where
  "clamp v lo hi = (if jlt v lo then lo else if jgt v hi then hi else v)"

section \<open>Example data\<close>

text \<open>An event of a given name, magnitude and time, at the origin.\<close>

definition quake :: "string \<Rightarrow> real \<Rightarrow> real \<Rightarrow> EarthquakeData" where
  "quake name m t =
     \<lparr>ident = name,
      geometry = \<lparr>coordinates = (Fin 0, Fin 0, Fin 0)\<rparr>,
      properties = \<lparr>mag = Fin m, place = name, time = Fin t, url = [], title = name,
                    kind = ''earthquake'', depth = Fin 0\<rparr>\<rparr>"

section \<open>Properties\<close>

subsection \<open>The order of numbers\<close>

lemma jlt_or_jle: "a \<noteq> NaN \<Longrightarrow> b \<noteq> NaN \<Longrightarrow> \<not> jlt a b \<Longrightarrow> jle b a"
  by (cases a; cases b) (auto simp: jle_def)

lemma jle_jlt_trans: "jle a b \<Longrightarrow> jlt b c \<Longrightarrow> jlt a c"
  by (cases a; cases b; cases c) (auto simp: jle_def)

lemma jlt_trans: "jlt a b \<Longrightarrow> jlt b c \<Longrightarrow> jlt a c"
  by (cases a; cases b; cases c) auto

subsection \<open>Magnitude bands\<close>

lemma classifyMagnitude_chain:
  "classifyMagnitude m =
     (if jlt m (Fin 1) then Micro else if jlt m (Fin 2) then Minor
      else if jlt m (Fin 3) then Light else if jlt m (Fin 4) then Moderate
      else if jlt m (Fin 5) then Strong else if jlt m (Fin 6) then Major else Great)"
  by (cases m) (simp_all add: classifyMagnitude_def boundaries_def bands_def)

lemma band_count_tally:
  "band_count band (tally st eq) =
     band_count band st + (if classifyMagnitude (mag (properties eq)) = band then 1 else 0)"
  by (cases band) (simp_all add: classifyMagnitude_chain tally_def Let_def)

lemma band_count_foldl_tally:
  "band_count band (foldl tally st es) = band_count band st + in_band band es"
  by (induction es arbitrary: st) (simp_all add: in_band_def band_count_tally)

text \<open>
  C1. The colour of a magnitude and its label name the same band, and the legend is
  consistent with the colour function. The code does otherwise: at magnitude 1.5
  the label is Minor and the row of the legend is \<open><2.0\<close>, Minor, with the minor
  colour (as is the Minor row of the distribution in the statistics component),
  while the colour function gives the colour the legend shows for Light. The colour
  function gives the colour of the legend's row below 1 and from 6 only.
\<close>

theorem color_label_legend_at_1_5:
  "getMagnitudeLabel (Fin 1.5) = ''Minor''
   \<and> getMagnitudeColor (Fin 1.5) = ''hsl(var(--magnitude-light))''
   \<and> legend_rows 1.5 = [(''<2.0'', ''hsl(var(--magnitude-minor))'', ''Minor'')]
   \<and> legend_label ''hsl(var(--magnitude-light))'' = Some ''Light''
   \<and> map (\<lambda>(label, count, color). (label, backgroundColor color)) (distribution st) ! 5
       = (''Minor (1.0-1.9)'', ''hsl(var(--magnitude-minor))'')
   \<and> (map (\<lambda>(range, color, lab). color) (legend_rows m) = [getMagnitudeColor (Fin m)])
       = (m < 1 \<or> 6 \<le> m)"
proof -
  have general: "(map (\<lambda>(range, color, lab). color) (legend_rows m) = [getMagnitudeColor (Fin m)])
       = (m < 1 \<or> 6 \<le> m)"
    by (simp add: legend_rows_def legend_def range_holds_def getMagnitudeColor_def)
  have at: "getMagnitudeLabel (Fin 1.5) = ''Minor''"
    "getMagnitudeColor (Fin 1.5) = ''hsl(var(--magnitude-light))''"
    "legend_rows 1.5 = [(''<2.0'', ''hsl(var(--magnitude-minor))'', ''Minor'')]"
    "legend_label ''hsl(var(--magnitude-light))'' = Some ''Light''"
    by (simp_all add: getMagnitudeLabel_def getMagnitudeColor_def legend_rows_def legend_def
        range_holds_def legend_label_def)
  have row: "map (\<lambda>(label, count, color). (label, backgroundColor color)) (distribution st) ! 5
       = (''Minor (1.0-1.9)'', ''hsl(var(--magnitude-minor))'')"
    by (simp add: distribution_def backgroundColor_def)
  from at row general show ?thesis by simp
qed

text \<open>
  C2. The label function and the bucketing of the statistics are the
  specification's \<open>classifyMagnitude\<close>: the label of a magnitude is the label of its
  band, and the counter of a band counts the events of that band. The bands are
  half-open intervals, closed below: 1.999 is minor, 2.0 is light, 5.999 is major,
  6.0 is great.
\<close>

theorem label_and_stats_are_classifyMagnitude:
  "getMagnitudeLabel m = band_label (classifyMagnitude m)
   \<and> band_count band (getStatsByMagnitude es) = in_band band es
   \<and> (classifyMagnitude (Fin x) = Micro) = (x < 1)
   \<and> (classifyMagnitude (Fin x) = Minor) = (1 \<le> x \<and> x < 2)
   \<and> (classifyMagnitude (Fin x) = Light) = (2 \<le> x \<and> x < 3)
   \<and> (classifyMagnitude (Fin x) = Moderate) = (3 \<le> x \<and> x < 4)
   \<and> (classifyMagnitude (Fin x) = Strong) = (4 \<le> x \<and> x < 5)
   \<and> (classifyMagnitude (Fin x) = Major) = (5 \<le> x \<and> x < 6)
   \<and> (classifyMagnitude (Fin x) = Great) = (6 \<le> x)
   \<and> getMagnitudeLabel (Fin 1.999) = ''Minor'' \<and> classifyMagnitude (Fin 1.999) = Minor
   \<and> getMagnitudeLabel (Fin 2.0) = ''Light'' \<and> classifyMagnitude (Fin 2.0) = Light
   \<and> getMagnitudeLabel (Fin 5.999) = ''Major'' \<and> classifyMagnitude (Fin 5.999) = Major
   \<and> getMagnitudeLabel (Fin 6.0) = ''Great'' \<and> classifyMagnitude (Fin 6.0) = Great"
proof -
  have "band_count band (getStatsByMagnitude es) = in_band band es"
    unfolding getStatsByMagnitude_def band_count_foldl_tally
    by (cases band) (simp_all add: stats0_def)
  then show ?thesis
    by (simp add: classifyMagnitude_chain getMagnitudeLabel_def)
qed

subsection \<open>The projection\<close>

lemma max_min_is_clamp:
  "Math_max2 (Fin 0) (Math_min2 (Fin 100) v) = clamp v (Fin 0) (Fin 100)"
  by (cases v) (auto simp: Math_max2_def Math_min2_def clamp_def jgt_def)

lemma clamp_range:
  "v \<noteq> NaN \<Longrightarrow> \<exists>r. clamp v (Fin 0) (Fin 100) = Fin r \<and> 0 \<le> r \<and> r \<le> 100"
  by (cases v) (auto simp: clamp_def jgt_def)

lemma jadd_Fin_not_NaN: "rounds rnd \<Longrightarrow> a \<noteq> NaN \<Longrightarrow> jadd rnd a (Fin c) \<noteq> NaN"
  by (cases a) (auto simp: rounds_def)

lemma jsub_Fin_not_NaN: "rounds rnd \<Longrightarrow> a \<noteq> NaN \<Longrightarrow> jsub rnd (Fin c) a \<noteq> NaN"
  by (cases a) (auto simp: rounds_def)

lemma jdiv_Fin_not_NaN: "rounds rnd \<Longrightarrow> a \<noteq> NaN \<Longrightarrow> c \<noteq> 0 \<Longrightarrow> jdiv rnd a (Fin c) \<noteq> NaN"
  by (cases a) (auto simp: rounds_def)

lemma jmul_Fin_not_NaN: "rounds rnd \<Longrightarrow> a \<noteq> NaN \<Longrightarrow> c \<noteq> 0 \<Longrightarrow> jmul rnd a (Fin c) \<noteq> NaN"
  by (cases a) (auto simp: rounds_def signed_inf_def)

text \<open>A coordinate that is \<open>NaN\<close> is not clamped: it gives \<open>NaN\<close>.\<close>

lemma latLngToScreen_NaN:
  "latLngToScreen rnd NaN lng = (x, y) \<Longrightarrow> y = NaN"
  "latLngToScreen rnd lat NaN = (x, y) \<Longrightarrow> x = NaN"
  by (auto simp: latLngToScreen_def Let_def Math_max2_def Math_min2_def)

text \<open>
  C6. The projection is the specification's formula,
  \<open>x = clamp(((lon + 180) / 360) * 100, 0, 100)\<close> and
  \<open>y = clamp(((90 - lat) / 180) * 100, 0, 100)\<close>. For every latitude and longitude
  that is a number (finite, in range or out of range, or infinite) and every
  rounding, both coordinates are finite and lie between 0 and 100. Where the
  rounding leaves the representable values 0, 1/2, 1, 50, 90, 100, 180 and 360 as
  they are, the projection of (90, -180) is (0, 0), of (-90, 180) is (100, 100) and
  of (0, 0) is (50, 50).
\<close>

theorem latLngToScreen_clamped:
  "latLngToScreen rnd lat lng =
     (clamp (jmul rnd (jdiv rnd (jadd rnd lng (Fin 180)) (Fin 360)) (Fin 100)) (Fin 0) (Fin 100),
      clamp (jmul rnd (jdiv rnd (jsub rnd (Fin 90) lat) (Fin 180)) (Fin 100)) (Fin 0) (Fin 100))
   \<and> (rounds rnd \<longrightarrow> lat \<noteq> NaN \<longrightarrow> lng \<noteq> NaN \<longrightarrow>
        (\<exists>x y. latLngToScreen rnd lat lng = (Fin x, Fin y)
               \<and> 0 \<le> x \<and> x \<le> 100 \<and> 0 \<le> y \<and> y \<le> 100))
   \<and> (exact_on rnd [0, 1 / 2, 1, 50, 90, 100, 180, 360] \<longrightarrow>
        latLngToScreen rnd (Fin 90) (Fin (- 180)) = (Fin 0, Fin 0)
        \<and> latLngToScreen rnd (Fin (- 90)) (Fin 180) = (Fin 100, Fin 100)
        \<and> latLngToScreen rnd (Fin 0) (Fin 0) = (Fin 50, Fin 50))"
proof -
  let ?x = "jmul rnd (jdiv rnd (jadd rnd lng (Fin 180)) (Fin 360)) (Fin 100)"
  let ?y = "jmul rnd (jdiv rnd (jsub rnd (Fin 90) lat) (Fin 180)) (Fin 100)"
  have formula: "latLngToScreen rnd lat lng = (clamp ?x (Fin 0) (Fin 100), clamp ?y (Fin 0) (Fin 100))"
    by (simp add: latLngToScreen_def Let_def max_min_is_clamp)
  have range: "\<exists>x y. latLngToScreen rnd lat lng = (Fin x, Fin y)
               \<and> 0 \<le> x \<and> x \<le> 100 \<and> 0 \<le> y \<and> y \<le> 100"
    if rnd: "rounds rnd" and lat: "lat \<noteq> NaN" and lng: "lng \<noteq> NaN"
  proof -
    have "?x \<noteq> NaN"
      using rnd lng by (intro jmul_Fin_not_NaN jdiv_Fin_not_NaN jadd_Fin_not_NaN) simp_all
    then obtain x where x: "clamp ?x (Fin 0) (Fin 100) = Fin x" "0 \<le> x" "x \<le> 100"
      using clamp_range by blast
    have "?y \<noteq> NaN"
      using rnd lat by (intro jmul_Fin_not_NaN jdiv_Fin_not_NaN jsub_Fin_not_NaN) simp_all
    then obtain y where y: "clamp ?y (Fin 0) (Fin 100) = Fin y" "0 \<le> y" "y \<le> 100"
      using clamp_range by blast
    from x y show ?thesis unfolding formula by simp
  qed
  have examples: "latLngToScreen rnd (Fin 90) (Fin (- 180)) = (Fin 0, Fin 0)
        \<and> latLngToScreen rnd (Fin (- 90)) (Fin 180) = (Fin 100, Fin 100)
        \<and> latLngToScreen rnd (Fin 0) (Fin 0) = (Fin 50, Fin 50)"
    if "exact_on rnd [0, 1 / 2, 1, 50, 90, 100, 180, 360]"
    using that
    by (simp add: exact_on_def latLngToScreen_def Let_def Math_max2_def Math_min2_def)
  from formula range examples show ?thesis by blast
qed

text \<open>
  With exact arithmetic: a longitude of 270 is clamped to the right edge, and an
  infinite latitude to the top edge.
\<close>

theorem latLngToScreen_clamped_witness:
  "rounds Fin \<and> Fin 45 \<noteq> NaN \<and> Fin 270 \<noteq> NaN
   \<and> latLngToScreen Fin (Fin 45) (Fin 270) = (Fin 100, Fin 25)
   \<and> latLngToScreen Fin PosInf (Fin 270) = (Fin 100, Fin 0)
   \<and> exact_on Fin [0, 1 / 2, 1, 50, 90, 100, 180, 360]
   \<and> latLngToScreen Fin (Fin 90) (Fin (- 180)) = (Fin 0, Fin 0)
   \<and> latLngToScreen Fin (Fin (- 90)) (Fin 180) = (Fin 100, Fin 100)
   \<and> latLngToScreen Fin (Fin 0) (Fin 0) = (Fin 50, Fin 50)"
  using latLngToScreen_clamped [of Fin "Fin 45" "Fin 270"]
    latLngToScreen_clamped [of Fin PosInf "Fin 270"]
  by (simp add: rounds_def exact_on_def clamp_def jgt_def signed_inf_def)

subsection \<open>Statistics\<close>

lemma foldl_later_first_maximum:
  assumes "\<forall>e \<in> set (first # rest). time (properties e) \<noteq> NaN"
  shows "\<exists>pre post. first # rest = pre @ foldl later first rest # post
           \<and> (\<forall>e \<in> set pre. jlt (time (properties e)) (time (properties (foldl later first rest))))
           \<and> (\<forall>e \<in> set post. jle (time (properties e)) (time (properties (foldl later first rest))))"
  using assms
proof (induction rest rule: rev_induct)
  case Nil
  have "[first] = [] @ first # []" by simp
  then show ?case by fastforce
next
  case (snoc x xs)
  let ?r = "foldl later first xs"
  from snoc obtain pre post where
    dec: "first # xs = pre @ ?r # post"
    and before: "\<forall>e \<in> set pre. jlt (time (properties e)) (time (properties ?r))"
    and after: "\<forall>e \<in> set post. jle (time (properties e)) (time (properties ?r))"
    by auto
  have r_in: "?r \<in> set (first # xs)" by (subst dec) simp
  then have r_ok: "time (properties ?r) \<noteq> NaN" using snoc.prems by auto
  have x_ok: "time (properties x) \<noteq> NaN" using snoc.prems by simp
  show ?case
  proof (cases "jlt (time (properties ?r)) (time (properties x))")
    case True
    then have res: "foldl later first (xs @ [x]) = x" by (simp add: later_def jgt_def)
    have "first # xs @ [x] = (pre @ ?r # post) @ x # []" using dec by simp
    moreover have "\<forall>e \<in> set (pre @ ?r # post). jlt (time (properties e)) (time (properties x))"
      using before after True by (auto intro: jlt_trans jle_jlt_trans)
    ultimately have "first # xs @ [x] = (pre @ ?r # post) @ x # []
        \<and> (\<forall>e \<in> set (pre @ ?r # post). jlt (time (properties e)) (time (properties x)))
        \<and> (\<forall>e \<in> set []. jle (time (properties e)) (time (properties x)))"
      by simp
    then show ?thesis unfolding res by (intro exI)
  next
    case False
    then have res: "foldl later first (xs @ [x]) = ?r" by (simp add: later_def jgt_def)
    have "first # xs @ [x] = pre @ ?r # (post @ [x])" using dec by simp
    moreover have "\<forall>e \<in> set (post @ [x]). jle (time (properties e)) (time (properties ?r))"
      using after False r_ok x_ok by (auto intro: jlt_or_jle)
    ultimately have "first # xs @ [x] = pre @ ?r # (post @ [x])
        \<and> (\<forall>e \<in> set pre. jlt (time (properties e)) (time (properties ?r)))
        \<and> (\<forall>e \<in> set (post @ [x]). jle (time (properties e)) (time (properties ?r)))"
      using before by simp
    then show ?thesis unfolding res by (intro exI)
  qed
qed

text \<open>
  C4. On a non-empty collection (whose times are numbers, not \<open>NaN\<close>) the most
  recent event is returned: every event before it in the collection is strictly
  older, and every event after it is no newer. So its time is maximal, and among
  the events of maximal time it is the first.
\<close>

theorem most_recent_is_first_maximum:
  assumes "es \<noteq> []" and "\<forall>e \<in> set es. time (properties e) \<noteq> NaN"
  shows "\<exists>pre latest post.
           getMostRecentEarthquake es = Inr latest \<and> es = pre @ latest # post
           \<and> (\<forall>e \<in> set pre. jlt (time (properties e)) (time (properties latest)))
           \<and> (\<forall>e \<in> set post. jle (time (properties e)) (time (properties latest)))"
proof -
  from assms(1) obtain first rest where es: "es = first # rest" by (cases es) auto
  have res: "getMostRecentEarthquake es = Inr (foldl later first rest)"
    by (simp add: es getMostRecentEarthquake_def)
  from foldl_later_first_maximum [of first rest] assms(2) es
  obtain pre post where "first # rest = pre @ foldl later first rest # post"
    and "\<forall>e \<in> set pre. jlt (time (properties e)) (time (properties (foldl later first rest)))"
    and "\<forall>e \<in> set post. jle (time (properties e)) (time (properties (foldl later first rest)))"
    by blast
  with res es show ?thesis by blast
qed

text \<open>
  Three events, the last two of the same, latest time: the first of the two is
  returned.
\<close>

theorem most_recent_is_first_maximum_witness:
  "[quake ''a'' 2.5 100, quake ''b'' 5.1 300, quake ''c'' 1.0 300] \<noteq> []
   \<and> getMostRecentEarthquake [quake ''a'' 2.5 100, quake ''b'' 5.1 300, quake ''c'' 1.0 300]
       = Inr (quake ''b'' 5.1 300)
   \<and> (\<exists>pre latest post.
         getMostRecentEarthquake [quake ''a'' 2.5 100, quake ''b'' 5.1 300, quake ''c'' 1.0 300]
           = Inr latest
         \<and> [quake ''a'' 2.5 100, quake ''b'' 5.1 300, quake ''c'' 1.0 300] = pre @ latest # post
         \<and> (\<forall>e \<in> set pre. jlt (time (properties e)) (time (properties latest)))
         \<and> (\<forall>e \<in> set post. jle (time (properties e)) (time (properties latest))))"
proof -
  have times: "\<forall>e \<in> set [quake ''a'' 2.5 100, quake ''b'' 5.1 300, quake ''c'' 1.0 300].
      time (properties e) \<noteq> NaN"
    by (simp add: quake_def)
  have "getMostRecentEarthquake [quake ''a'' 2.5 100, quake ''b'' 5.1 300, quake ''c'' 1.0 300]
      = Inr (quake ''b'' 5.1 300)"
    by (simp add: getMostRecentEarthquake_def later_def jgt_def quake_def)
  with most_recent_is_first_maximum [OF _ times] show ?thesis by simp
qed

lemma foldl_tally_total:
  "micro (foldl tally s es) + minor (foldl tally s es) + light (foldl tally s es)
     + moderate (foldl tally s es) + strong (foldl tally s es) + major (foldl tally s es)
     + great (foldl tally s es)
   = micro s + minor s + light s + moderate s + strong s + major s + great s + length es"
proof (induction es arbitrary: s)
  case Nil
  show ?case by simp
next
  case (Cons e es)
  have step: "micro (tally s e) + minor (tally s e) + light (tally s e) + moderate (tally s e)
      + strong (tally s e) + major (tally s e) + great (tally s e)
    = Suc (micro s + minor s + light s + moderate s + strong s + major s + great s)"
    by (simp add: tally_def Let_def)
  show ?case
    using Cons.IH [of "tally s e"] step by simp
qed

text \<open>
  C5. Every event is counted in exactly one of the seven buckets: the seven counts
  add up to the length of the collection.
\<close>

theorem band_counts_sum_to_length:
  "micro (getStatsByMagnitude es) + minor (getStatsByMagnitude es)
     + light (getStatsByMagnitude es) + moderate (getStatsByMagnitude es)
     + strong (getStatsByMagnitude es) + major (getStatsByMagnitude es)
     + great (getStatsByMagnitude es) = length es"
  unfolding getStatsByMagnitude_def
  by (simp only: foldl_tally_total) (simp add: stats0_def)

subsection \<open>Maximum and mean\<close>

lemma jle_refl: "a \<noteq> NaN \<Longrightarrow> jle a a"
  by (simp add: jle_def)

lemma jle_trans: "jle a b \<Longrightarrow> jle b c \<Longrightarrow> jle a c"
  by (cases a; cases b; cases c) (auto simp: jle_def)

lemma jlt_imp_jle: "jlt a b \<Longrightarrow> jle a b"
  by (cases a; cases b) (auto simp: jle_def)

lemma jle_NegInf: "a \<noteq> NaN \<Longrightarrow> jle NegInf a"
  by (cases a) (auto simp: jle_def)

lemma foldl_Math_max2:
  assumes "acc \<noteq> NaN" and "\<forall>x \<in> set xs. x \<noteq> NaN"
  shows "foldl Math_max2 acc xs \<in> insert acc (set xs)
       \<and> jle acc (foldl Math_max2 acc xs)
       \<and> (\<forall>x \<in> set xs. jle x (foldl Math_max2 acc xs))"
  using assms
proof (induction xs arbitrary: acc)
  case Nil
  then show ?case by (simp add: jle_refl)
next
  case (Cons x xs)
  let ?a = "Math_max2 acc x"
  have x: "x \<noteq> NaN" using Cons.prems by simp
  have a: "?a \<noteq> NaN" "?a \<in> {acc, x}" "jle acc ?a" "jle x ?a"
    using Cons.prems(1) x
    by (auto simp: Math_max2_def jle_refl jlt_imp_jle jlt_or_jle)
  from Cons.IH [of ?a] a(1) Cons.prems(2)
  have ih: "foldl Math_max2 ?a xs \<in> insert ?a (set xs)"
    "jle ?a (foldl Math_max2 ?a xs)"
    "\<forall>y \<in> set xs. jle y (foldl Math_max2 ?a xs)"
    by simp_all
  from ih(1) a(2) have "foldl Math_max2 acc (x # xs) \<in> insert acc (set (x # xs))"
    by auto
  moreover from a(3) ih(2) have "jle acc (foldl Math_max2 acc (x # xs))"
    by (auto intro: jle_trans)
  moreover from a(4) ih(2,3) have "\<forall>y \<in> set (x # xs). jle y (foldl Math_max2 acc (x # xs))"
    by (auto intro: jle_trans)
  ultimately show ?case by blast
qed

lemma Math_max_greatest:
  assumes "xs \<noteq> []" and "\<forall>x \<in> set xs. x \<noteq> NaN"
  shows "Math_max xs \<in> set xs \<and> (\<forall>x \<in> set xs. jle x (Math_max xs))"
proof -
  from foldl_Math_max2 [of NegInf xs] assms(2)
  have r: "Math_max xs \<in> insert NegInf (set xs)" "\<forall>x \<in> set xs. jle x (Math_max xs)"
    by (simp_all add: Math_max_def)
  have "Math_max xs \<in> set xs"
  proof (cases "Math_max xs = NegInf")
    case True
    from assms(1) obtain x where x: "x \<in> set xs" by (cases xs) auto
    with r(2) True have "jle x NegInf" by simp
    then have "x = NegInf" by (cases x) (auto simp: jle_def)
    with x True show ?thesis by simp
  next
    case False
    with r(1) show ?thesis by simp
  qed
  with r(2) show ?thesis by simp
qed

lemma Math_max_Fin:
  assumes "ms \<noteq> []"
  shows "Math_max (map Fin ms) = Fin (Max (set ms))"
proof -
  from Math_max_greatest [of "map Fin ms"] assms
  have r: "Math_max (map Fin ms) \<in> Fin ` set ms" "\<forall>m \<in> set ms. jle (Fin m) (Math_max (map Fin ms))"
    by auto
  from r(1) obtain m where m: "m \<in> set ms" "Math_max (map Fin ms) = Fin m" by auto
  with r(2) have "\<forall>x \<in> set ms. x \<le> m" by (auto simp: jle_def)
  with m(1) have "Max (set ms) = m" by (intro Max_eqI) auto
  with m(2) show ?thesis by simp
qed

lemma foldl_jadd_exact:
  "exact rnd \<Longrightarrow> foldl (jadd rnd) (Fin a) (map Fin ms) = Fin (a + sum_list ms)"
  by (induction ms arbitrary: a) (simp_all add: exact_def add.assoc)

lemma total_as_foldl:
  "foldl (\<lambda>sum eq. jadd rnd sum (mag (properties eq))) a es
     = foldl (jadd rnd) a (map (\<lambda>eq. mag (properties eq)) es)"
  by (induction es arbitrary: a) simp_all

lemma accurate_on_1_16:
  assumes "accurate_on rnd 1 16" and "1 \<le> r" and "r \<le> 16"
  shows "\<exists>v. rnd r = Fin v \<and> \<bar>v - r\<bar> \<le> 1 / 100000000000000"
proof -
  from assms obtain v where v: "rnd r = Fin v" "\<bar>v - r\<bar> \<le> \<bar>r\<bar> / 2 ^ 53"
    unfolding accurate_on_def by blast
  have "\<bar>r\<bar> / 2 ^ 53 \<le> 16 / 2 ^ 53"
    using assms(2,3) by (simp add: divide_right_mono)
  also have "(16::real) / 2 ^ 53 \<le> 1 / 100000000000000" by simp
  finally have "\<bar>v - r\<bar> \<le> 1 / 100000000000000" using v(2) by linarith
  with v(1) show ?thesis by blast
qed

lemma example_mean:
  assumes "accurate_on rnd 1 16"
  shows "\<exists>a. getAverageMagnitude rnd [quake ''a'' 2.5 100, quake ''b'' 5.1 300, quake ''c'' 1.0 200] = Fin a
           \<and> \<bar>a - 2.8667\<bar> < 0.0001"
proof -
  note acc = accurate_on_1_16 [OF assms]
  obtain v1 where v1: "rnd (0 + 2.5) = Fin v1" "\<bar>v1 - (0 + 2.5)\<bar> \<le> 1 / 100000000000000"
    using acc [of "0 + 2.5"] by auto
  from v1(2) have b1: "2.4 \<le> v1" "v1 \<le> 2.6" by linarith+
  obtain v2 where v2: "rnd (v1 + 5.1) = Fin v2" "\<bar>v2 - (v1 + 5.1)\<bar> \<le> 1 / 100000000000000"
    using acc [of "v1 + 5.1"] b1 by auto
  from v2(2) b1 have b2: "7.4 \<le> v2" "v2 \<le> 7.8" by linarith+
  obtain v3 where v3: "rnd (v2 + 1.0) = Fin v3" "\<bar>v3 - (v2 + 1.0)\<bar> \<le> 1 / 100000000000000"
    using acc [of "v2 + 1.0"] b2 by auto
  from v3(2) b2 have b3: "8.3 \<le> v3" "v3 \<le> 8.9" by linarith+
  obtain v4 where v4: "rnd (v3 / 3) = Fin v4" "\<bar>v4 - v3 / 3\<bar> \<le> 1 / 100000000000000"
    using acc [of "v3 / 3"] b3 by auto
  have avg: "getAverageMagnitude rnd [quake ''a'' 2.5 100, quake ''b'' 5.1 300, quake ''c'' 1.0 200] = Fin v4"
    using v1(1) v2(1) v3(1) v4(1) by (simp add: getAverageMagnitude_def quake_def)
  have "\<bar>v4 - 28667 / 10000\<bar> < 1 / 10000"
    using v1(2) v2(2) v3(2) v4(2) by linarith
  then have "\<bar>v4 - 2.8667\<bar> < 0.0001" by simp
  with avg show ?thesis by blast
qed

text \<open>
  C8. On the empty collection the maximum is \<open>-Infinity\<close> and the mean is \<open>NaN\<close>
  (zero divided by zero), whatever the rounding. On a non-empty collection whose
  magnitudes are numbers the maximum is a magnitude of the collection and no
  magnitude is above it (for finite magnitudes, their \<open>Max\<close>). The mean is the sum
  of the magnitudes, added from the left starting at 0, divided by the length, in
  the arithmetic of the machine; with exact arithmetic on finite magnitudes it is
  the real quotient. For the magnitudes 2.5, 5.1, 1.0 the maximum is 5.1, and with
  the accuracy of binary64 between 1 and 16 the mean is within 0.0001 of 2.8667.
\<close>

theorem aggregates_of_collection:
  "getMaxMagnitude [] = NegInf
   \<and> getAverageMagnitude rnd [] = NaN
   \<and> (es \<noteq> [] \<longrightarrow> (\<forall>e \<in> set es. mag (properties e) \<noteq> NaN) \<longrightarrow>
        (\<exists>e \<in> set es. getMaxMagnitude es = mag (properties e))
        \<and> (\<forall>e \<in> set es. jle (mag (properties e)) (getMaxMagnitude es)))
   \<and> (es \<noteq> [] \<longrightarrow> map (\<lambda>e. mag (properties e)) es = map Fin ms \<longrightarrow>
        getMaxMagnitude es = Fin (Max (set ms)))
   \<and> getAverageMagnitude rnd es
       = jdiv rnd (foldl (jadd rnd) (Fin 0) (map (\<lambda>e. mag (properties e)) es))
           (Fin (real (length es)))
   \<and> (es \<noteq> [] \<longrightarrow> exact rnd \<longrightarrow> map (\<lambda>e. mag (properties e)) es = map Fin ms \<longrightarrow>
        getAverageMagnitude rnd es = Fin (sum_list ms / real (length ms)))
   \<and> (accurate_on rnd 1 16 \<longrightarrow>
        getMaxMagnitude [quake ''a'' 2.5 100, quake ''b'' 5.1 300, quake ''c'' 1.0 200] = Fin 5.1
        \<and> (\<exists>a. getAverageMagnitude rnd
                  [quake ''a'' 2.5 100, quake ''b'' 5.1 300, quake ''c'' 1.0 200] = Fin a
               \<and> \<bar>a - 2.8667\<bar> < 0.0001))"
proof -
  let ?mags = "map (\<lambda>e. mag (properties e)) es"
  have max_empty: "getMaxMagnitude [] = NegInf"
    by (simp add: getMaxMagnitude_def Math_max_def)
  have mean_empty: "getAverageMagnitude rnd [] = NaN"
    by (simp add: getAverageMagnitude_def signed_inf_def)
  have max_greatest: "(\<exists>e \<in> set es. getMaxMagnitude es = mag (properties e))
        \<and> (\<forall>e \<in> set es. jle (mag (properties e)) (getMaxMagnitude es))"
    if "es \<noteq> []" and "\<forall>e \<in> set es. mag (properties e) \<noteq> NaN"
  proof -
    from Math_max_greatest [of ?mags] that
    have "Math_max ?mags \<in> set ?mags" and "\<forall>x \<in> set ?mags. jle x (Math_max ?mags)"
      by simp_all
    then show ?thesis unfolding getMaxMagnitude_def by auto
  qed
  have max_finite: "getMaxMagnitude es = Fin (Max (set ms))"
    if "es \<noteq> []" and "?mags = map Fin ms"
  proof -
    from that have "ms \<noteq> []" by auto
    then show ?thesis using that(2) by (simp add: getMaxMagnitude_def Math_max_Fin)
  qed
  have mean_formula: "getAverageMagnitude rnd es
       = jdiv rnd (foldl (jadd rnd) (Fin 0) ?mags) (Fin (real (length es)))"
    by (simp add: getAverageMagnitude_def total_as_foldl)
  have mean_exact: "getAverageMagnitude rnd es = Fin (sum_list ms / real (length ms))"
    if "es \<noteq> []" and "exact rnd" and "?mags = map Fin ms"
  proof -
    from that(1,3) have len: "length ms = length es" "length es \<noteq> 0"
      by (auto dest: arg_cong [where f = length])
    have "foldl (jadd rnd) (Fin 0) ?mags = Fin (sum_list ms)"
      using that(2,3) by (simp add: foldl_jadd_exact)
    then show ?thesis
      using len that(2) unfolding mean_formula by (simp add: exact_def)
  qed
  have example_max:
    "getMaxMagnitude [quake ''a'' 2.5 100, quake ''b'' 5.1 300, quake ''c'' 1.0 200] = Fin 5.1"
    by (simp add: getMaxMagnitude_def Math_max_def Math_max2_def quake_def)
  from max_empty mean_empty max_greatest max_finite mean_formula mean_exact example_max
    example_mean [of rnd]
  show ?thesis by blast
qed

theorem aggregates_of_collection_witness:
  "[quake ''a'' 2.5 100, quake ''b'' 5.1 300, quake ''c'' 1.0 200] \<noteq> []
   \<and> exact Fin \<and> accurate_on Fin 1 16
   \<and> map (\<lambda>e. mag (properties e)) [quake ''a'' 2.5 100, quake ''b'' 5.1 300, quake ''c'' 1.0 200]
       = map Fin [2.5, 5.1, 1.0]
   \<and> getMaxMagnitude [quake ''a'' 2.5 100, quake ''b'' 5.1 300, quake ''c'' 1.0 200] = Fin 5.1
   \<and> getAverageMagnitude Fin [quake ''a'' 2.5 100, quake ''b'' 5.1 300, quake ''c'' 1.0 200]
       = Fin (43 / 15)
   \<and> \<bar>43 / 15 - 2.8667\<bar> < (0.0001 :: real)
   \<and> getMaxMagnitude [] = NegInf \<and> getAverageMagnitude Fin [] = NaN"
proof -
  have hyps: "exact Fin" "accurate_on Fin 1 16"
    "map (\<lambda>e. mag (properties e)) [quake ''a'' 2.5 100, quake ''b'' 5.1 300, quake ''c'' 1.0 200]
       = map Fin [2.5, 5.1, 1.0]"
    by (simp_all add: exact_def accurate_on_def quake_def)
  from aggregates_of_collection
    [of Fin "[quake ''a'' 2.5 100, quake ''b'' 5.1 300, quake ''c'' 1.0 200]" "[2.5, 5.1, 1.0]"]
    hyps
  show ?thesis by simp
qed

subsection \<open>Fetching the feed\<close>

lemma digit_value_digit: "d < 10 \<Longrightarrow> digit_value (digit d) = d"
proof -
  assume "d < 10"
  then have "d \<in> {0, 1, 2, 3, 4, 5, 6, 7, 8, 9}" by auto
  then show ?thesis
    by (auto simp: digit_def digit_value_def)
qed

lemma read_nat_show_nat: "read_nat (show_nat n) = n"
proof (induction n rule: show_nat.induct)
  case (1 n)
  show ?case
  proof (cases "n < 10")
    case True
    then show ?thesis
      by (subst show_nat.simps) (simp add: read_nat_def digit_value_digit)
  next
    case False
    with 1 have "read_nat (show_nat (n div 10)) = n div 10" by simp
    with False show ?thesis
      by (subst show_nat.simps) (simp add: read_nat_def digit_value_digit)
  qed
qed

lemma show_nat_inject: "show_nat m = show_nat n \<Longrightarrow> m = n"
  by (metis read_nat_show_nat)

text \<open>
  C3. When the response is not ok (status 500, say), the \<open>try\<close> block throws an
  error whose message carries the status: two responses that are not ok and throw
  the same error have the same status. The error is caught and logged, and the
  collection the view holds is the one it held before: \<open>setEarthquakes\<close> is not
  reached. This holds of the fetch of the map component and of the fetch of the page.
\<close>

theorem http_error_keeps_collection:
  assumes "\<not> ok response"
  shows "fst (Map_try (Resolved response) s)
           = Some (Error (''HTTP error! status: '' @ show_nat (status response)))
       \<and> Map_fetchEarthquakes (Resolved response) s
           = s\<lparr>loading := False,
               console := console s @ [(''Error fetching earthquake data:'',
                  Error (''HTTP error! status: '' @ show_nat (status response)))],
               error := Some ''Failed to load earthquake data. Please try again later.''\<rparr>
       \<and> earthquakes (Map_fetchEarthquakes (Resolved response) s) = earthquakes s
       \<and> fst (Index_try (Resolved response) t)
           = Some (Error (''HTTP error! status: '' @ show_nat (status response)))
       \<and> Index_fetchEarthquakes (Resolved response) t
           = t\<lparr>loading := False,
               console := console t @ [(''Error fetching earthquake data:'',
                  Error (''HTTP error! status: '' @ show_nat (status response)))]\<rparr>
       \<and> earthquakes (Index_fetchEarthquakes (Resolved response) t) = earthquakes t
       \<and> (\<not> ok other \<and> fst (Map_try (Resolved other) s') = fst (Map_try (Resolved response) s)
            \<longrightarrow> status other = status response)
       \<and> (\<not> ok other \<and> fst (Index_try (Resolved other) t') = fst (Index_try (Resolved response) t)
            \<longrightarrow> status other = status response)"
  using assms
  by (auto simp: Map_try_def Map_fetchEarthquakes_def Index_try_def Index_fetchEarthquakes_def
      Let_def dest: show_nat_inject)

theorem http_error_keeps_collection_witness:
  "\<not> ok \<lparr>ok = False, status = 500, json = Inl SyntaxError\<rparr>
   \<and> fst (Map_try (Resolved \<lparr>ok = False, status = 500, json = Inl SyntaxError\<rparr>)
        \<lparr>earthquakes = [quake ''a'' 2.5 100], loading = False, console = [],
         error = None, selectedEarthquake = None\<rparr>)
      = Some (Error ''HTTP error! status: 500'')
   \<and> earthquakes (Map_fetchEarthquakes (Resolved \<lparr>ok = False, status = 500, json = Inl SyntaxError\<rparr>)
        \<lparr>earthquakes = [quake ''a'' 2.5 100], loading = False, console = [],
         error = None, selectedEarthquake = None\<rparr>)
      = [quake ''a'' 2.5 100]
   \<and> earthquakes (Index_fetchEarthquakes (Resolved \<lparr>ok = False, status = 500, json = Inl SyntaxError\<rparr>)
        \<lparr>earthquakes = [quake ''a'' 2.5 100], loading = False, console = []\<rparr>)
      = [quake ''a'' 2.5 100]"
  using http_error_keeps_collection
    [of "\<lparr>ok = False, status = 500, json = Inl SyntaxError\<rparr>"
        "\<lparr>earthquakes = [quake ''a'' 2.5 100], loading = False, console = [],
          error = None, selectedEarthquake = None\<rparr>"
        "\<lparr>earthquakes = [quake ''a'' 2.5 100], loading = False, console = []\<rparr>"]
  by (simp add: show_nat.simps digit_def)

text \<open>
  C7. When the response is ok and its body has no \<open>features\<close> (the body \<open>{}\<close>),
  nothing is thrown and the collection becomes the empty one.
\<close>

theorem missing_features_gives_empty:
  assumes "ok response" and "json response = Inr (JsonValue None)"
  shows "fst (Map_try (Resolved response) s) = None
       \<and> Map_fetchEarthquakes (Resolved response) s
           = s\<lparr>earthquakes := [], loading := False, error := None\<rparr>
       \<and> fst (Index_try (Resolved response) t) = None
       \<and> Index_fetchEarthquakes (Resolved response) t = t\<lparr>earthquakes := [], loading := False\<rparr>"
  using assms
  by (simp add: Map_try_def Map_fetchEarthquakes_def Index_try_def Index_fetchEarthquakes_def
      features_or_empty_def Let_def)

theorem missing_features_gives_empty_witness:
  "ok \<lparr>ok = True, status = 200, json = Inr (JsonValue None)\<rparr>
   \<and> json \<lparr>ok = True, status = 200, json = Inr (JsonValue None)\<rparr> = Inr (JsonValue None)
   \<and> Map_fetchEarthquakes (Resolved \<lparr>ok = True, status = 200, json = Inr (JsonValue None)\<rparr>)
        \<lparr>earthquakes = [quake ''a'' 2.5 100], loading = True, console = [],
         error = Some ''Failed to load earthquake data. Please try again later.'',
         selectedEarthquake = None\<rparr>
      = \<lparr>earthquakes = [], loading = False, console = [], error = None, selectedEarthquake = None\<rparr>
   \<and> Index_fetchEarthquakes (Resolved \<lparr>ok = True, status = 200, json = Inr (JsonValue None)\<rparr>)
        \<lparr>earthquakes = [quake ''a'' 2.5 100], loading = True, console = []\<rparr>
      = \<lparr>earthquakes = [], loading = False, console = []\<rparr>"
  using missing_features_gives_empty
    [of "\<lparr>ok = True, status = 200, json = Inr (JsonValue None)\<rparr>"
        "\<lparr>earthquakes = [quake ''a'' 2.5 100], loading = True, console = [],
          error = Some ''Failed to load earthquake data. Please try again later.'',
          selectedEarthquake = None\<rparr>"
        "\<lparr>earthquakes = [quake ''a'' 2.5 100], loading = True, console = []\<rparr>"]
  by simp

subsection \<open>The refresh timer\<close>

lemma clock_tick: "clock (tick b) = clock b + 1"
  by (simp add: tick_def Let_def)

lemma clock_run: "clock (run n b) = clock b + n"
  by (induction n) (simp_all add: run_def clock_tick)

lemma run_Suc: "run (Suc n) b = tick (run n b)"
  by (simp add: run_def)

lemma mine_tick:
  "mine h (tick b) =
     map (\<lambda>t. if due t \<le> clock b + 1 then t\<lparr>due := due t + delay t\<rparr> else t) (mine h b)"
  by (simp add: mine_def tick_def Let_def filter_map comp_def cong: if_cong)

lemma fired_tick:
  "fired h (tick b) =
     fired h b @ map (\<lambda>t. clock b + 1) (filter (\<lambda>t. due t \<le> clock b + 1) (mine h b))"
  by (simp add: fired_def mine_def tick_def Let_def filter_map comp_def conj_commute)

lemma mine_run_none: "mine h b = [] \<Longrightarrow> mine h (run n b) = []"
  by (induction n) (simp_all add: run_def mine_tick)

lemma fired_run_none: "mine h b = [] \<Longrightarrow> fired h (run n b) = fired h b"
proof (induction n)
  case 0
  show ?case by (simp add: run_def)
next
  case (Suc n)
  then show ?case by (simp add: run_Suc fired_tick mine_run_none)
qed

lemma div_step_due:
  fixes n d :: nat
  assumes "0 < d" and "(n div d + 1) * d \<le> n + 1"
  shows "Suc n div d = n div d + 1 \<and> Suc n = (n div d + 1) * d"
proof -
  define q r where "q = n div d" and "r = n mod d"
  have n: "n = q * d + r" and r: "r < d"
    using assms(1) by (simp_all add: q_def r_def)
  have "(q + 1) * d \<le> n + 1" using assms(2) by (simp add: q_def)
  then have "q * d + d \<le> q * d + r + 1" by (simp add: n)
  with r have eq: "Suc n = (q + 1) * d" by (simp add: n)
  then have "Suc n div d = q + 1"
    using assms(1) by simp
  with eq show ?thesis unfolding q_def by simp
qed

lemma div_step_not_due:
  fixes n d :: nat
  assumes "0 < d" and "\<not> (n div d + 1) * d \<le> n + 1"
  shows "Suc n div d = n div d"
proof -
  define q r where "q = n div d" and "r = n mod d"
  have n: "n = q * d + r"
    by (simp add: q_def r_def)
  have "\<not> (q + 1) * d \<le> n + 1" using assms(2) by (simp add: q_def)
  then have "q * d + r + 1 < q * d + d" by (simp add: n)
  then have "d * q \<le> Suc n" "Suc n < d * Suc q"
    by (simp_all add: n algebra_simps)
  then have "Suc n div d = q" by (rule div_nat_eqI)
  then show ?thesis unfolding q_def .
qed

lemma run_interval:
  assumes d: "0 < d"
    and start: "mine h b = [\<lparr>handle = h, callback = cb, delay = d, due = clock b + d\<rparr>]"
  shows "mine h (run n b)
           = [\<lparr>handle = h, callback = cb, delay = d, due = clock b + (n div d + 1) * d\<rparr>]
       \<and> fired h (run n b) = fired h b @ map (\<lambda>k. clock b + k * d) [1..<n div d + 1]"
proof (induction n)
  case 0
  show ?case using d start by (simp add: run_def)
next
  case (Suc n)
  let ?T = "\<lparr>handle = h, callback = cb, delay = d, due = clock b + (n div d + 1) * d\<rparr>"
  from Suc have m: "mine h (run n b) = [?T]"
    and f: "fired h (run n b) = fired h b @ map (\<lambda>k. clock b + k * d) [1..<n div d + 1]"
    by simp_all
  show ?case
  proof (cases "(n div d + 1) * d \<le> n + 1")
    case True
    from div_step_due [OF d True] have q: "Suc n div d = n div d + 1" "Suc n = (n div d + 1) * d"
      by blast+
    have due: "due ?T \<le> clock (run n b) + 1" using True by (simp add: clock_run)
    have "mine h (run (Suc n) b) = [?T\<lparr>due := due ?T + delay ?T\<rparr>]"
      unfolding run_Suc mine_tick m using due by simp
    moreover have "fired h (run (Suc n) b)
        = fired h b @ map (\<lambda>k. clock b + k * d) [1..<n div d + 1] @ [clock (run n b) + 1]"
      unfolding run_Suc fired_tick m f using due by simp
    moreover have "clock (run n b) + 1 = clock b + (n div d + 1) * d"
      using q(2) by (simp add: clock_run)
    ultimately show ?thesis unfolding q(1) by (simp add: algebra_simps)
  next
    case False
    from div_step_not_due [OF d False] have q: "Suc n div d = n div d" .
    have due: "\<not> due ?T \<le> clock (run n b) + 1" using False by (simp add: clock_run)
    have "mine h (run (Suc n) b) = [?T]"
      unfolding run_Suc mine_tick m using due by simp
    moreover have "fired h (run (Suc n) b) = fired h b @ map (\<lambda>k. clock b + k * d) [1..<n div d + 1]"
      unfolding run_Suc fired_tick m f using due by simp
    ultimately show ?thesis unfolding q by simp
  qed
qed

lemma mine_clearInterval: "mine h (clearInterval h b) = []"
  by (simp add: mine_def clearInterval_def)

lemma fired_clearInterval: "fired h (clearInterval k b) = fired h b"
  by (simp add: fired_def clearInterval_def)

lemma Index_effect_no_timer:
  "timers (Index_effect b) = timers b
   \<and> invocations (Index_effect b) = invocations b @ [(clock b, FromEffect, FetchEarthquakes)]"
  by (simp add: Index_effect_def)

text \<open>
  C9. Mounting the map view calls the fetch once and enters one timer, with the
  callback \<open>fetchEarthquakes\<close> and the delay 5 * 60 * 1000 milliseconds. While the
  view is mounted the timer invokes the fetch at every multiple of five minutes
  after the mount and at no other time: after \<open>n\<close> milliseconds it has fired
  \<open>n div 300000\<close> times. The cleanup clears that same timer: the table holds no
  timer of the handle, and however long the clock runs on, the timer invokes
  nothing more. (The handles of the timers in the table are below the next free
  handle: the platform hands out fresh handles.)
\<close>

theorem refresh_timer:
  assumes fresh: "\<forall>t \<in> set (timers b). handle t < next_handle b"
    and mount: "Map_effect b = (interval, mounted)"
  shows "invocations mounted = invocations b @ [(clock b, FromEffect, FetchEarthquakes)]
       \<and> mine interval mounted
           = [\<lparr>handle = interval, callback = FetchEarthquakes, delay = 5 * 60 * 1000,
               due = clock b + 5 * 60 * 1000\<rparr>]
       \<and> fired interval (run n mounted)
           = fired interval b @ map (\<lambda>k. clock b + k * (5 * 60 * 1000)) [1..<n div (5 * 60 * 1000) + 1]
       \<and> mine interval (Map_cleanup interval (run n mounted)) = []
       \<and> fired interval (run m (Map_cleanup interval (run n mounted)))
           = fired interval (run n mounted)"
proof -
  from mount have interval: "interval = next_handle b"
    and mounted: "mounted =
      b\<lparr>invocations := invocations b @ [(clock b, FromEffect, FetchEarthquakes)],
        timers := timers b @ [\<lparr>handle = next_handle b, callback = FetchEarthquakes,
                                delay = 5 * 60 * 1000, due = clock b + 5 * 60 * 1000\<rparr>],
        next_handle := next_handle b + 1\<rparr>"
    by (auto simp: Map_effect_def setInterval_def Let_def)
  have log: "invocations mounted = invocations b @ [(clock b, FromEffect, FetchEarthquakes)]"
    by (simp add: mounted)
  have "filter (\<lambda>t. handle t = next_handle b) (timers b) = []"
    using fresh by (auto simp: filter_empty_conv)
  then have entry: "mine interval mounted
      = [\<lparr>handle = interval, callback = FetchEarthquakes, delay = 5 * 60 * 1000,
          due = clock mounted + 5 * 60 * 1000\<rparr>]"
    by (simp add: mine_def mounted interval)
  have clock: "clock mounted = clock b" and before: "fired interval mounted = fired interval b"
    by (simp_all add: mounted fired_def)
  from run_interval [OF _ entry, of n]
  have active: "fired interval (run n mounted)
      = fired interval b @ map (\<lambda>k. clock b + k * (5 * 60 * 1000)) [1..<n div (5 * 60 * 1000) + 1]"
    by (simp add: clock before)
  have gone: "mine interval (Map_cleanup interval (run n mounted)) = []"
    by (simp add: Map_cleanup_def mine_clearInterval)
  from fired_run_none [OF gone, of m]
  have after: "fired interval (run m (Map_cleanup interval (run n mounted)))
      = fired interval (run n mounted)"
    by (simp add: Map_cleanup_def fired_clearInterval)
  from log entry clock active gone after show ?thesis by simp
qed

text \<open>
  Mounted at time 0 with the handle 1: after ten minutes the timer has fired at
  300000 and at 600000; torn down then, it has fired no more fifteen minutes later.
\<close>

theorem refresh_timer_witness:
  "Map_effect \<lparr>clock = 0, timers = [], next_handle = 1, invocations = []\<rparr>
     = (1, \<lparr>clock = 0,
            timers = [\<lparr>handle = 1, callback = FetchEarthquakes, delay = 300000, due = 300000\<rparr>],
            next_handle = 2, invocations = [(0, FromEffect, FetchEarthquakes)]\<rparr>)
   \<and> fired 1 (run 600000 (snd (Map_effect \<lparr>clock = 0, timers = [], next_handle = 1, invocations = []\<rparr>)))
       = [300000, 600000]
   \<and> fired 1 (run 900000 (Map_cleanup 1
         (run 600000 (snd (Map_effect \<lparr>clock = 0, timers = [], next_handle = 1, invocations = []\<rparr>)))))
       = [300000, 600000]"
proof -
  let ?b = "\<lparr>clock = 0, timers = [], next_handle = 1, invocations = []\<rparr>"
  have mount: "Map_effect ?b
     = (1, \<lparr>clock = 0,
            timers = [\<lparr>handle = 1, callback = FetchEarthquakes, delay = 300000, due = 300000\<rparr>],
            next_handle = 2, invocations = [(0, FromEffect, FetchEarthquakes)]\<rparr>)"
    by (simp add: Map_effect_def setInterval_def Let_def)
  have fresh: "\<forall>t \<in> set (timers ?b). handle t < next_handle ?b" by simp
  have upt: "[1..<3] = [1, 2::nat]" by (simp add: upt_rec)
  from refresh_timer [OF fresh mount, of 600000 900000] upt
  show ?thesis unfolding mount by (simp add: fired_def)
qed

subsection \<open>The statistics panel\<close>

text \<open>
  C10. The most recent event of an empty collection does not exist: the reduction
  throws, and so would the statistics component. The page creates the component
  under the guard \<open>!loading && earthquakes.length > 0\<close> only, so whenever the component
  is created its collection is not empty and it renders without an error; in every
  other state the page shows the loading card.
\<close>

theorem stats_component_gets_nonempty:
  "getMostRecentEarthquake [] = Inl TypeError
   \<and> EarthquakeStats rnd [] = Inl TypeError
   \<and> (Index_statsPanel s = LoadingCard) = (loading s \<or> earthquakes s = [])
   \<and> (Index_statsPanel s = EarthquakeStats_element es
        \<longrightarrow> es = earthquakes s \<and> es \<noteq> [] \<and> (\<exists>v. EarthquakeStats rnd es = Inr v))
   \<and> (\<exists>v. render rnd (Index_statsPanel s) = Inr v)"
proof -
  have ok: "\<exists>v. EarthquakeStats rnd es = Inr v" if "es \<noteq> []" for es
    using that by (cases es) (simp_all add: EarthquakeStats_def getMostRecentEarthquake_def Let_def)
  have a: "getMostRecentEarthquake [] = Inl TypeError"
    by (simp add: getMostRecentEarthquake_def)
  have b: "EarthquakeStats rnd [] = Inl TypeError"
    by (simp add: EarthquakeStats_def getMostRecentEarthquake_def Let_def)
  have c: "(Index_statsPanel s = LoadingCard) = (loading s \<or> earthquakes s = [])"
    by (simp add: Index_statsPanel_def)
  have d: "Index_statsPanel s = EarthquakeStats_element es
        \<longrightarrow> es = earthquakes s \<and> es \<noteq> [] \<and> (\<exists>v. EarthquakeStats rnd es = Inr v)" for es
    using ok by (auto simp: Index_statsPanel_def split: if_splits)
  have e: "\<exists>v. render rnd (Index_statsPanel s) = Inr v"
  proof (cases "Index_statsPanel s")
    case (EarthquakeStats_element props)
    with d obtain v where "EarthquakeStats rnd props = Inr v" by blast
    with EarthquakeStats_element show ?thesis by (simp add: render_def)
  next
    case LoadingCard
    then show ?thesis by (simp add: render_def)
  qed
  from a b c d e show ?thesis by blast
qed

theorem stats_component_gets_nonempty_witness:
  "Index_statsPanel \<lparr>earthquakes = [quake ''a'' 2.5 100], loading = False, console = []\<rparr>
     = EarthquakeStats_element [quake ''a'' 2.5 100]
   \<and> [quake ''a'' 2.5 100] \<noteq> []
   \<and> (\<exists>v. EarthquakeStats Fin [quake ''a'' 2.5 100] = Inr v)
   \<and> Index_statsPanel \<lparr>earthquakes = [], loading = False, console = []\<rparr> = LoadingCard"
  using stats_component_gets_nonempty
    [of Fin "\<lparr>earthquakes = [quake ''a'' 2.5 100], loading = False, console = []\<rparr>"
        "[quake ''a'' 2.5 100]"]
    stats_component_gets_nonempty
    [of Fin "\<lparr>earthquakes = [], loading = False, console = []\<rparr>" "[]"]
  by (simp add: Index_statsPanel_def)

end
